theory Spec2Isabelle
  imports Main
begin

section \<open>Constants of package cors\<close>

text \<open>
  The header names and the wildcard token of \<^verbatim>\<open>cors/cors.go\<close>, and the two constants
  of \<^verbatim>\<open>net/http\<close> that the package uses (\<^verbatim>\<open>http.MethodOptions\<close> and
  \<^verbatim>\<open>http.StatusNoContent\<close>).
\<close>

definition HeaderOrigin :: string where
  "HeaderOrigin = ''Origin''"

definition HeaderVary :: string where
  "HeaderVary = ''Vary''"

definition HeaderAllowCredentials :: string where
  "HeaderAllowCredentials = ''Access-Control-Allow-Credentials''"

definition HeaderAllowOrigin :: string where
  "HeaderAllowOrigin = ''Access-Control-Allow-Origin''"

definition HeaderAllowHeaders :: string where
  "HeaderAllowHeaders = ''Access-Control-Allow-Headers''"

definition HeaderAllowMethods :: string where
  "HeaderAllowMethods = ''Access-Control-Allow-Methods''"

definition HeaderExposeHeaders :: string where
  "HeaderExposeHeaders = ''Access-Control-Expose-Headers''"

definition HeaderMaxAge :: string where
  "HeaderMaxAge = ''Access-Control-Max-Age''"

definition HeaderRequestMethod :: string where
  "HeaderRequestMethod = ''Access-Control-Request-Method''"

definition HeaderRequestHeaders :: string where
  "HeaderRequestHeaders = ''Access-Control-Request-Headers''"

definition HeaderValueWildcard :: string where
  "HeaderValueWildcard = ''*''"

definition DefaultMaxAge :: int where
  "DefaultMaxAge = 5"

definition MethodOptions :: string where
  "MethodOptions = ''OPTIONS''"

definition StatusNoContent :: nat where
  "StatusNoContent = 204"


section \<open>HTTP headers, requests and response writers\<close>

text \<open>
  \<^verbatim>\<open>http.Header\<close> is a Go \<^verbatim>\<open>map[string][]string\<close> keyed by canonical header names.
  Every key the package passes to \<^verbatim>\<open>Get\<close>, \<open>Set\<close> and \<open>Add\<close> is one of the constants
  above, each already in canonical form, so the canonicalisation of the key is the
  identity on them and is left out.

  \<^item> \<^verbatim>\<open>Get\<close> returns the first value stored under the key, and the empty string when the
    key is absent or its slice is empty.
  \<^item> \<^verbatim>\<open>Set\<close> replaces the values of the key by the single new value.
  \<^item> \<^verbatim>\<open>Add\<close> appends the value to the values of the key.
\<close>

type_synonym Header = "string \<rightharpoonup> string list"

definition Header_Get :: "Header \<Rightarrow> string \<Rightarrow> string" where
  "Header_Get h key = (case h key of None \<Rightarrow> [] | Some [] \<Rightarrow> [] | Some (v # _) \<Rightarrow> v)"

definition Header_Set :: "Header \<Rightarrow> string \<Rightarrow> string \<Rightarrow> Header" where
  "Header_Set h key v = h(key \<mapsto> [v])"

definition Header_Add :: "Header \<Rightarrow> string \<Rightarrow> string \<Rightarrow> Header" where
  "Header_Add h key v = h(key \<mapsto> (case h key of None \<Rightarrow> [] | Some vs \<Rightarrow> vs) @ [v])"

text \<open>
  The part of \<^verbatim>\<open>http.Request\<close> that the package reads: the method and the headers.
  Type \<^verbatim>\<open>cors.Request\<close> is \<^verbatim>\<open>http.Request\<close> under another name.
\<close>

record Request =
  Method :: string
  Header :: Header

text \<open>
  \<^verbatim>\<open>http.ResponseWriter\<close> is an interface. The package uses two of its methods:
  \<^verbatim>\<open>Header()\<close>, the header map that will be sent, and \<^verbatim>\<open>WriteHeader(code)\<close>.
  The writer is modelled by that header map and by the status codes passed to
  \<^verbatim>\<open>WriteHeader\<close> so far, oldest first.
\<close>

record ResponseWriter =
  hdr :: Header
  codes :: "nat list"

definition WriteHeader :: "ResponseWriter \<Rightarrow> nat \<Rightarrow> ResponseWriter" where
  "WriteHeader rw code = rw\<lparr>codes := codes rw @ [code]\<rparr>"


section \<open>Request classification\<close>

text \<open>
  \<^verbatim>\<open>func (r *Request) IsPreflight() bool\<close>: the conjunction of the four tests, in the
  order of the source.
\<close>

definition IsPreflight :: "Request \<Rightarrow> bool" where
  "IsPreflight r =
     (Method r = MethodOptions \<and>
      Header_Get (Header r) HeaderOrigin \<noteq> [] \<and>
      Header_Get (Header r) HeaderRequestMethod \<noteq> [] \<and>
      Header_Get (Header r) HeaderRequestHeaders \<noteq> [])"


section \<open>Library functions used by the rules\<close>

text \<open>
  \<^verbatim>\<open>strings.Join(elems, sep)\<close> of the Go standard library: the empty string for no
  element, the element itself for one, and otherwise the first element followed, for
  each further element in order, by the separator and that element (the loop over
  \<^verbatim>\<open>elems[1:]\<close> that writes into a builder).
\<close>

definition Join :: "string list \<Rightarrow> string \<Rightarrow> string" where
  "Join elems sep =
     (case elems of
        [] \<Rightarrow> []
      | [e] \<Rightarrow> e
      | e # rest \<Rightarrow> foldl (\<lambda>b s. b @ sep @ s) e rest)"

text \<open>
  \<^verbatim>\<open>strconv.Itoa(i)\<close> of the Go standard library is \<^verbatim>\<open>FormatInt(int64(i), 10)\<close>.
  The digits are produced from the least significant one into the end of a buffer
  (\<open>formatBits\<close>, with the buffer's filled suffix as the second argument), and a minus
  sign is put in front of the digits of the magnitude when the number is negative.
  Go's \<^verbatim>\<open>int\<close> is a 32- or 64-bit signed integer; the model takes every integer, which
  includes both ranges (the magnitude of the least value is computed without overflow in
  the source as well, in the unsigned type).
\<close>

definition digits :: string where
  "digits = ''0123456789''"

function formatBits :: "nat \<Rightarrow> string \<Rightarrow> string" where
  "formatBits u a =
     (if 10 \<le> u then formatBits (u div 10) (digits ! (u mod 10) # a)
      else digits ! u # a)"
  by pat_completeness auto
termination
  by (relation "measure (\<lambda>(u, a). u)") auto

declare formatBits.simps [simp del]

definition Itoa :: "int \<Rightarrow> string" where
  "Itoa i = (if i < 0 then CHR ''-'' # formatBits (nat (- i)) [] else formatBits (nat i) [])"


section \<open>Options and the header-decision rules\<close>

text \<open>
  \<^verbatim>\<open>type Options struct\<close>. The unexported field \<^verbatim>\<open>cache\<close> is a Go map, which is
  \<^verbatim>\<open>nil\<close> until \<^verbatim>\<open>NewHandler\<close> makes it: \<open>None\<close> is the nil map. Reading a key of a
  nil map, or a key that is absent, gives the zero value (the empty string); storing
  into a nil map panics. The other panic of the package is the read of a field through
  a nil pointer.
\<close>

record Options =
  AllowCredentials :: bool
  AllowHeaders :: "string list"
  AllowMethods :: "string list"
  AllowOrigins :: "string list"
  ExposeHeaders :: "string list"
  MaxAge :: int
  cache :: "(string \<rightharpoonup> string) option"

datatype panic = AssignmentToEntryInNilMap | NilPointerDereference

definition cache_load :: "Options \<Rightarrow> string \<Rightarrow> string" where
  "cache_load opts key =
     (case cache opts of
        None \<Rightarrow> []
      | Some m \<Rightarrow> (case m key of None \<Rightarrow> [] | Some v \<Rightarrow> v))"

definition cache_store :: "Options \<Rightarrow> string \<Rightarrow> string \<Rightarrow> panic + Options" where
  "cache_store opts key v =
     (case cache opts of
        None \<Rightarrow> Inl AssignmentToEntryInNilMap
      | Some m \<Rightarrow> Inr (opts\<lparr>cache := Some (m(key \<mapsto> v))\<rparr>))"

definition NewOptions :: Options where
  "NewOptions =
     \<lparr>AllowCredentials = False, AllowHeaders = [], AllowMethods = [], AllowOrigins = [],
      ExposeHeaders = [], MaxAge = DefaultMaxAge, cache = None\<rparr>"

text \<open>
  The rules are methods on the pointer \<^verbatim>\<open>*Options\<close>, so a call can read and write the
  receiver. Each rule is therefore a function from the receiver's state before the call
  to the returned string and the receiver's state after the call.
\<close>

text \<open>
  The loop of \<^verbatim>\<open>GetAllowOrigin\<close>: \<open>result\<close> is the local variable, the list is what is
  left of \<^verbatim>\<open>o.AllowOrigins\<close>. The \<^verbatim>\<open>switch\<close> takes the first case that is equal to
  \<open>ao\<close>, so the wildcard case comes first, also when the request's origin is the
  wildcard itself.
\<close>

fun GetAllowOrigin_range :: "string \<Rightarrow> string \<Rightarrow> string list \<Rightarrow> string" where
  "GetAllowOrigin_range origin result [] = result"
| "GetAllowOrigin_range origin result (ao # aos) =
     (if ao = HeaderValueWildcard then HeaderValueWildcard
      else if ao = origin then GetAllowOrigin_range origin origin aos
      else GetAllowOrigin_range origin result aos)"

definition GetAllowOrigin :: "Options \<Rightarrow> Request \<Rightarrow> string \<times> Options" where
  "GetAllowOrigin opts request =
     (let origin = Header_Get (Header request) HeaderOrigin
      in (GetAllowOrigin_range origin [] (AllowOrigins opts), opts))"

definition GetAllowCredentials :: "Options \<Rightarrow> string \<times> Options" where
  "GetAllowCredentials opts =
     (if AllowCredentials opts then (''true'', opts) else ([], opts))"

text \<open>
  The loop shared in shape by \<^verbatim>\<open>GetAllowMethods\<close>, \<^verbatim>\<open>GetAllowHeaders\<close> and
  \<^verbatim>\<open>GetExposeHeaders\<close>: it returns the wildcard from inside the loop at the first
  element that is the wildcard (\<open>Some\<close>), and falls through otherwise (\<open>None\<close>).
\<close>

fun range_wildcard :: "string list \<Rightarrow> string option" where
  "range_wildcard [] = None"
| "range_wildcard (x # xs) =
     (if x = HeaderValueWildcard then Some HeaderValueWildcard else range_wildcard xs)"

definition GetAllowMethods :: "Options \<Rightarrow> string \<times> Options" where
  "GetAllowMethods opts =
     (case range_wildcard (AllowMethods opts) of
        Some w \<Rightarrow> (w, opts)
      | None \<Rightarrow> (Join (AllowMethods opts) '', '', opts))"

definition GetAllowHeaders :: "Options \<Rightarrow> string \<times> Options" where
  "GetAllowHeaders opts =
     (case range_wildcard (AllowHeaders opts) of
        Some w \<Rightarrow> (w, opts)
      | None \<Rightarrow> (Join (AllowHeaders opts) '', '', opts))"

definition GetMaxAge :: "Options \<Rightarrow> string \<times> Options" where
  "GetMaxAge opts = (Itoa (MaxAge opts), opts)"

definition GetExposeHeaders :: "Options \<Rightarrow> string \<times> Options" where
  "GetExposeHeaders opts =
     (case range_wildcard (ExposeHeaders opts) of
        Some w \<Rightarrow> (w, opts)
      | None \<Rightarrow> (Join (ExposeHeaders opts) '', '', opts))"

definition GetVary :: "Options \<Rightarrow> string \<times> Options" where
  "GetVary opts = (if 1 < length (AllowOrigins opts) then (HeaderOrigin, opts) else ([], opts))"


section \<open>The handler\<close>

text \<open>
  \<^verbatim>\<open>func (o *Options) NewHandler() http.Handler\<close> makes the cache, stores the four
  request-independent values and returns the receiver itself under the type
  \<^verbatim>\<open>*handler\<close>: the returned handler is the receiver's state after the call. On a
  receiver that is not nil, a store into the map is the one operation that can panic.
\<close>

definition NewHandler :: "Options \<Rightarrow> panic + Options" where
  "NewHandler opts =
     (let opts = opts\<lparr>cache := Some Map.empty\<rparr>;
          (v, opts) = GetAllowMethods opts
      in case cache_store opts HeaderAllowMethods v of Inl p \<Rightarrow> Inl p | Inr opts \<Rightarrow>
     (let (v, opts) = GetAllowHeaders opts
      in case cache_store opts HeaderAllowHeaders v of Inl p \<Rightarrow> Inl p | Inr opts \<Rightarrow>
     (let (v, opts) = GetExposeHeaders opts
      in case cache_store opts HeaderExposeHeaders v of Inl p \<Rightarrow> Inl p | Inr opts \<Rightarrow>
     (let (v, opts) = GetMaxAge opts
      in case cache_store opts HeaderMaxAge v of Inl p \<Rightarrow> Inl p | Inr opts \<Rightarrow>
      Inr opts))))"

text \<open>
  \<^verbatim>\<open>func (h *handler) ServeHTTP(rw http.ResponseWriter, req *http.Request)\<close>. The
  result is the response writer and the receiver after the call.
\<close>

definition handler_ServeHTTP ::
    "Options \<Rightarrow> ResponseWriter \<Rightarrow> Request \<Rightarrow> ResponseWriter \<times> Options" where
  "handler_ServeHTTP h rw req =
     (let (v, h) = GetVary h;
          rw = (if v \<noteq> [] then rw\<lparr>hdr := Header_Add (hdr rw) HeaderVary v\<rparr> else rw);
          (v, h) = GetAllowOrigin h req;
          rw = (if v \<noteq> [] then rw\<lparr>hdr := Header_Set (hdr rw) HeaderAllowOrigin v\<rparr> else rw);
          (v, h) = GetAllowCredentials h;
          rw = (if v \<noteq> [] then rw\<lparr>hdr := Header_Set (hdr rw) HeaderAllowCredentials v\<rparr>
                else rw)
      in if IsPreflight req then
           (let v = cache_load h HeaderAllowMethods;
                rw = (if v \<noteq> [] then rw\<lparr>hdr := Header_Set (hdr rw) HeaderAllowMethods v\<rparr>
                      else rw);
                v = cache_load h HeaderAllowHeaders;
                rw = (if v \<noteq> [] then rw\<lparr>hdr := Header_Set (hdr rw) HeaderAllowHeaders v\<rparr>
                      else rw);
                v = cache_load h HeaderMaxAge;
                rw = (if v \<noteq> [] then rw\<lparr>hdr := Header_Set (hdr rw) HeaderMaxAge v\<rparr>
                      else rw)
            in (WriteHeader rw StatusNoContent, h))
         else
           (let v = cache_load h HeaderExposeHeaders;
                rw = (if v \<noteq> [] then rw\<lparr>hdr := Header_Set (hdr rw) HeaderExposeHeaders v\<rparr>
                      else rw)
            in (rw, h)))"


section \<open>The Traefik plugin\<close>

text \<open>
  \<^verbatim>\<open>traefik/plugin.go\<close>. The next stage is an arbitrary \<^verbatim>\<open>http.Handler\<close>: its
  effect on the response writer is a parameter. A connection carries the response
  writer and the requests that have been handed to the next stage, oldest first, so
  that the calls of the next stage can be counted.
\<close>

record Config =
  cfgAllowCredentials :: bool
  cfgAllowHeaders :: "string list"
  cfgAllowMethods :: "string list"
  cfgAllowOrigins :: "string list"
  cfgExposeHeaders :: "string list"
  cfgMaxAge :: int

definition CreateConfig :: Config where
  "CreateConfig =
     \<lparr>cfgAllowCredentials = False, cfgAllowHeaders = [],
      cfgAllowMethods = [''HEAD'', ''GET'', ''POST''], cfgAllowOrigins = [''*''],
      cfgExposeHeaders = [], cfgMaxAge = DefaultMaxAge\<rparr>"

record CorsPlugin =
  next_stage :: "ResponseWriter \<Rightarrow> Request \<Rightarrow> ResponseWriter"
  plugin_name :: string
  cors :: Options

record Conn =
  writer :: ResponseWriter
  forwarded :: "Request list"


definition CorsPlugin_ServeHTTP :: "CorsPlugin \<Rightarrow> Conn \<Rightarrow> Request \<Rightarrow> Conn \<times> CorsPlugin" where
  "CorsPlugin_ServeHTTP c conn req =
     (let (rw, h) = handler_ServeHTTP (cors c) (writer conn) req;
          c = c\<lparr>cors := h\<rparr>;
          conn = conn\<lparr>writer := rw\<rparr>
      in if IsPreflight req then (conn, c)
         else (conn\<lparr>writer := next_stage c (writer conn) req,
                    forwarded := forwarded conn @ [req]\<rparr>, c))"


section \<open>Calls through pointers\<close>












section \<open>The requests and options of the package's tests\<close>

text \<open>
  The options and the request of \<^verbatim>\<open>TestHandler_ServeHTTP\<close> (the same request as in
  \<^verbatim>\<open>TestRequest_IsPreflight\<close>), the request of \<^verbatim>\<open>TestRequest_IsNotPreflight\<close>, a
  plain GET request from the same origin, and a fresh response writer.
\<close>

definition test_options :: Options where
  "test_options =
     NewOptions\<lparr>AllowOrigins := [''https://example.com''],
                AllowHeaders := [''Content-Type'', ''Authorization''],
                AllowMethods := [''GET'', ''POST'']\<rparr>"

definition preflight_request :: Request where
  "preflight_request =
     \<lparr>Method = ''OPTIONS'',
      Header = [''Origin'' \<mapsto> [''https://example.com''],
                ''Access-Control-Request-Headers'' \<mapsto> [''Content-Type''],
                ''Access-Control-Request-Method'' \<mapsto> [''GET'']]\<rparr>"

definition options_request :: Request where
  "options_request =
     \<lparr>Method = ''OPTIONS'', Header = [''Origin'' \<mapsto> [''https://example.com'']]\<rparr>"

definition get_request :: Request where
  "get_request =
     \<lparr>Method = ''GET'', Header = [''Origin'' \<mapsto> [''https://example.com'']]\<rparr>"

definition recorder :: ResponseWriter where
  "recorder = \<lparr>hdr = Map.empty, codes = []\<rparr>"

text \<open>
  The handler that \<^verbatim>\<open>NewHandler\<close> makes of the test's options, a plugin around it whose
  next stage answers with status 200, and a connection on which nothing has happened.
\<close>

definition test_handler :: Options where
  "test_handler =
     test_options\<lparr>cache :=
       Some [''Access-Control-Allow-Methods'' \<mapsto> ''GET, POST'',
             ''Access-Control-Allow-Headers'' \<mapsto> ''Content-Type, Authorization'',
             ''Access-Control-Expose-Headers'' \<mapsto> [],
             ''Access-Control-Max-Age'' \<mapsto> ''5'']\<rparr>"

definition test_plugin :: CorsPlugin where
  "test_plugin =
     \<lparr>next_stage = (\<lambda>rw req. WriteHeader rw 200), plugin_name = ''cors'',
      cors = test_handler\<rparr>"

definition test_conn :: Conn where
  "test_conn = \<lparr>writer = recorder, forwarded = []\<rparr>"


section \<open>Reference notions\<close>

text \<open>
  The list joined with a separator, as a recursion on the list: nothing for no element,
  the element for one, and the separator between any two neighbours.
\<close>

fun join_with :: "string \<Rightarrow> string list \<Rightarrow> string" where
  "join_with sep [] = []"
| "join_with sep [x] = x"
| "join_with sep (x # y # ys) = x @ sep @ join_with sep (y # ys)"

text \<open>
  Reading a decimal numeral: the value of a digit character, the value of a string of
  digits (most significant first), and the value of an optional minus sign followed by
  at least one digit. A numeral is canonical when it has no redundant leading zero and
  no negative zero.
\<close>

definition digit_value :: "char \<Rightarrow> nat option" where
  "digit_value c =
     (if 48 \<le> (of_char c :: nat) \<and> (of_char c :: nat) \<le> 57
      then Some (of_char c - 48) else None)"

fun parse_digits :: "nat \<Rightarrow> string \<Rightarrow> nat option" where
  "parse_digits acc [] = Some acc"
| "parse_digits acc (c # cs) =
     (case digit_value c of None \<Rightarrow> None | Some d \<Rightarrow> parse_digits (10 * acc + d) cs)"

definition decimal_value :: "string \<Rightarrow> int option" where
  "decimal_value s =
     (case s of
        [] \<Rightarrow> None
      | c # cs \<Rightarrow>
          if c = CHR ''-''
          then (if cs = [] then None else map_option (\<lambda>n. - int n) (parse_digits 0 cs))
          else map_option int (parse_digits 0 s))"

definition canonical_decimal :: "string \<Rightarrow> bool" where
  "canonical_decimal s =
     (case s of
        [] \<Rightarrow> False
      | c # cs \<Rightarrow>
          if c = CHR ''-'' then cs \<noteq> [] \<and> hd cs \<noteq> CHR ''0''
          else c \<noteq> CHR ''0'' \<or> cs = [])"

text \<open>
  Setting and adding a header only for a non-empty value, as each guarded statement of
  \<^verbatim>\<open>ServeHTTP\<close> does, and the three headers written for every request.
\<close>

definition set_if :: "ResponseWriter \<Rightarrow> string \<Rightarrow> string \<Rightarrow> ResponseWriter" where
  "set_if rw key v = (if v \<noteq> [] then rw\<lparr>hdr := Header_Set (hdr rw) key v\<rparr> else rw)"

definition add_if :: "ResponseWriter \<Rightarrow> string \<Rightarrow> string \<Rightarrow> ResponseWriter" where
  "add_if rw key v = (if v \<noteq> [] then rw\<lparr>hdr := Header_Add (hdr rw) key v\<rparr> else rw)"

definition common_headers :: "Options \<Rightarrow> ResponseWriter \<Rightarrow> Request \<Rightarrow> ResponseWriter" where
  "common_headers h rw req =
     set_if (set_if (add_if rw HeaderVary (fst (GetVary h)))
               HeaderAllowOrigin (fst (GetAllowOrigin h req)))
       HeaderAllowCredentials (fst (GetAllowCredentials h))"

text \<open>
  A handler that does not read the cache: it is \<^verbatim>\<open>ServeHTTP\<close> with each read of the
  cache replaced by a call of the rule whose value \<^verbatim>\<open>NewHandler\<close> stores under that
  key.
\<close>

definition recompute_ServeHTTP ::
    "Options \<Rightarrow> ResponseWriter \<Rightarrow> Request \<Rightarrow> ResponseWriter \<times> Options" where
  "recompute_ServeHTTP h rw req =
     (let (v, h) = GetVary h;
          rw = (if v \<noteq> [] then rw\<lparr>hdr := Header_Add (hdr rw) HeaderVary v\<rparr> else rw);
          (v, h) = GetAllowOrigin h req;
          rw = (if v \<noteq> [] then rw\<lparr>hdr := Header_Set (hdr rw) HeaderAllowOrigin v\<rparr> else rw);
          (v, h) = GetAllowCredentials h;
          rw = (if v \<noteq> [] then rw\<lparr>hdr := Header_Set (hdr rw) HeaderAllowCredentials v\<rparr>
                else rw)
      in if IsPreflight req then
           (let (v, h) = GetAllowMethods h;
                rw = (if v \<noteq> [] then rw\<lparr>hdr := Header_Set (hdr rw) HeaderAllowMethods v\<rparr>
                      else rw);
                (v, h) = GetAllowHeaders h;
                rw = (if v \<noteq> [] then rw\<lparr>hdr := Header_Set (hdr rw) HeaderAllowHeaders v\<rparr>
                      else rw);
                (v, h) = GetMaxAge h;
                rw = (if v \<noteq> [] then rw\<lparr>hdr := Header_Set (hdr rw) HeaderMaxAge v\<rparr>
                      else rw)
            in (WriteHeader rw StatusNoContent, h))
         else
           (let (v, h) = GetExposeHeaders h;
                rw = (if v \<noteq> [] then rw\<lparr>hdr := Header_Set (hdr rw) HeaderExposeHeaders v\<rparr>
                      else rw)
            in (rw, h)))"


section \<open>Facts about the library functions\<close>

lemmas header_names =
  HeaderOrigin_def HeaderVary_def HeaderAllowCredentials_def HeaderAllowOrigin_def
  HeaderAllowHeaders_def HeaderAllowMethods_def HeaderExposeHeaders_def HeaderMaxAge_def
  HeaderRequestMethod_def HeaderRequestHeaders_def

lemma foldl_sep: "foldl (\<lambda>b s. b @ sep @ s) e rest = e @ concat (map (\<lambda>s. sep @ s) rest)"
  by (induction rest arbitrary: e) auto

lemma join_with_Cons: "join_with sep (e # rest) = e @ concat (map (\<lambda>s. sep @ s) rest)"
  by (induction rest arbitrary: e) auto

lemma Join_join_with: "Join elems sep = join_with sep elems"
  by (cases elems) (auto simp: Join_def foldl_sep join_with_Cons split: list.splits)

lemma below_ten: "d < 10 \<Longrightarrow> d \<in> {0, 1, 2, 3, 4, 5, 6, 7, 8, 9 :: nat}"
  by auto

lemma digit_value_digits: "d < 10 \<Longrightarrow> digit_value (digits ! d) = Some d"
  by (drule below_ten) (auto simp: digits_def digit_value_def)

lemma digits_not_minus: "d < 10 \<Longrightarrow> digits ! d \<noteq> CHR ''-''"
  by (drule below_ten) (auto simp: digits_def)

lemma digits_zero: "d < 10 \<Longrightarrow> digits ! d = CHR ''0'' \<longleftrightarrow> d = 0"
  by (drule below_ten) (auto simp: digits_def)

lemma formatBits_append: "formatBits u a = formatBits u [] @ a"
proof (induction u arbitrary: a rule: less_induct)
  case (less u)
  show ?case
  proof (cases "10 \<le> u")
    case True
    then have lt: "u div 10 < u" by simp
    have "formatBits u a = formatBits (u div 10) (digits ! (u mod 10) # a)"
      using True by (simp add: formatBits.simps [of u a])
    also have "\<dots> = formatBits (u div 10) [] @ (digits ! (u mod 10) # a)"
      by (rule less.IH [OF lt])
    also have "\<dots> = (formatBits (u div 10) [] @ [digits ! (u mod 10)]) @ a"
      by simp
    also have "formatBits (u div 10) [] @ [digits ! (u mod 10)] =
        formatBits (u div 10) [digits ! (u mod 10)]"
      by (rule less.IH [OF lt, symmetric])
    also have "formatBits (u div 10) [digits ! (u mod 10)] = formatBits u []"
      using True by (simp add: formatBits.simps [of u "[]"])
    finally show ?thesis .
  next
    case False
    then show ?thesis by (simp add: formatBits.simps [of u])
  qed
qed

lemma formatBits_unfold:
  "formatBits u [] =
     (if 10 \<le> u then formatBits (u div 10) [] @ [digits ! (u mod 10)] else [digits ! u])"
  by (subst formatBits.simps) (simp add: formatBits_append [of _ "[_]"])

lemma parse_digits_append:
  "parse_digits acc (xs @ ys) =
     (case parse_digits acc xs of None \<Rightarrow> None | Some v \<Rightarrow> parse_digits v ys)"
  by (induction xs arbitrary: acc) (auto split: option.splits)

lemma parse_formatBits: "parse_digits 0 (formatBits u []) = Some u"
proof (induction u rule: less_induct)
  case (less u)
  show ?case
  proof (cases "10 \<le> u")
    case True
    then have lt: "u div 10 < u" by simp
    have m: "u mod 10 < 10" by simp
    show ?thesis
      using True less.IH [OF lt] digit_value_digits [OF m]
      by (subst formatBits_unfold) (simp add: parse_digits_append)
  next
    case False
    then have "u < 10" by simp
    then show ?thesis
      using digit_value_digits [of u]
      by (subst formatBits_unfold) simp
  qed
qed

text \<open>
  The first character of the digits of \<open>u\<close> is a digit, and it is the digit zero only
  for \<open>u = 0\<close>, where it is the only character.
\<close>

lemma formatBits_hd:
  "\<exists>d cs. d < 10 \<and> formatBits u [] = digits ! d # cs \<and> (d = 0 \<longrightarrow> u = 0 \<and> cs = [])"
proof (induction u rule: less_induct)
  case (less u)
  show ?case
  proof (cases "10 \<le> u")
    case True
    then have lt: "u div 10 < u" and pos: "u div 10 \<noteq> 0" by simp_all
    from less.IH [OF lt] pos obtain d cs
      where "d < 10" "formatBits (u div 10) [] = digits ! d # cs" "d \<noteq> 0"
      by blast
    then have "d < 10 \<and> formatBits u [] = digits ! d # (cs @ [digits ! (u mod 10)]) \<and> d \<noteq> 0"
      using True by (subst formatBits_unfold) simp
    then show ?thesis by blast
  next
    case False
    then have "u < 10" by simp
    moreover have "formatBits u [] = [digits ! u]"
      using False by (subst formatBits_unfold) simp
    ultimately show ?thesis by blast
  qed
qed

lemma Itoa_nonempty: "Itoa i \<noteq> []"
  using formatBits_hd [of "nat i"] by (auto simp: Itoa_def)

lemma decimal_value_Itoa: "decimal_value (Itoa i) = Some i"
proof (cases "i < 0")
  case True
  obtain d cs where "d < 10" "formatBits (nat (- i)) [] = digits ! d # cs"
    using formatBits_hd by blast
  then show ?thesis
    using True parse_formatBits [of "nat (- i)"] by (simp add: Itoa_def decimal_value_def)
next
  case False
  obtain d cs where d: "d < 10" "formatBits (nat i) [] = digits ! d # cs"
    using formatBits_hd by blast
  have "parse_digits 0 (digits ! d # cs) = Some (nat i)"
    using parse_formatBits [of "nat i"] d by simp
  then show ?thesis
    using False d digits_not_minus [OF d(1)] by (simp add: Itoa_def decimal_value_def)
qed

lemma canonical_decimal_Itoa: "canonical_decimal (Itoa i)"
proof (cases "i < 0")
  case True
  obtain d cs where d: "d < 10" "formatBits (nat (- i)) [] = digits ! d # cs"
      "d = 0 \<longrightarrow> nat (- i) = 0 \<and> cs = []"
    using formatBits_hd by blast
  from True d(3) have "d \<noteq> 0" by auto
  then show ?thesis
    using True d(1,2) digits_zero [OF d(1)] by (simp add: Itoa_def canonical_decimal_def)
next
  case False
  obtain d cs where d: "d < 10" "formatBits (nat i) [] = digits ! d # cs"
      "d = 0 \<longrightarrow> nat i = 0 \<and> cs = []"
    using formatBits_hd by blast
  then show ?thesis
    using False digits_not_minus [OF d(1)] digits_zero [OF d(1)]
    by (auto simp: Itoa_def canonical_decimal_def)
qed


section \<open>Facts about the loops of the rules\<close>

lemma GetAllowOrigin_range_eq:
  "GetAllowOrigin_range origin result xs =
     (if HeaderValueWildcard \<in> set xs then HeaderValueWildcard
      else if origin \<in> set xs then origin else result)"
  by (induction xs arbitrary: result) auto

lemma range_wildcard_eq:
  "range_wildcard xs =
     (if HeaderValueWildcard \<in> set xs then Some HeaderValueWildcard else None)"
  by (induction xs) auto

lemma Header_Get_nonempty_iff:
  "Header_Get h key \<noteq> [] \<longleftrightarrow> (\<exists>v vs. h key = Some (v # vs) \<and> v \<noteq> [])"
  by (auto simp: Header_Get_def split: option.splits list.splits)


section \<open>Request classification: the four conditions\<close>

text \<open>
  C1. A request is classified as preflight exactly when its method is OPTIONS and
  its Origin, Access-Control-Request-Method and Access-Control-Request-Headers headers
  are all non-empty (the first value stored under each name is a non-empty string);
  a request that lacks any one of the four is not preflight.
\<close>

theorem IsPreflight_iff_four_conditions:
  "(IsPreflight r \<longleftrightarrow>
      Method r = ''OPTIONS'' \<and>
      Header_Get (Header r) ''Origin'' \<noteq> [] \<and>
      Header_Get (Header r) ''Access-Control-Request-Method'' \<noteq> [] \<and>
      Header_Get (Header r) ''Access-Control-Request-Headers'' \<noteq> []) \<and>
   (IsPreflight r \<longleftrightarrow>
      Method r = ''OPTIONS'' \<and>
      (\<exists>v vs. Header r ''Origin'' = Some (v # vs) \<and> v \<noteq> []) \<and>
      (\<exists>v vs. Header r ''Access-Control-Request-Method'' = Some (v # vs) \<and> v \<noteq> []) \<and>
      (\<exists>v vs. Header r ''Access-Control-Request-Headers'' = Some (v # vs) \<and> v \<noteq> []))"
  by (simp add: IsPreflight_def MethodOptions_def header_names Header_Get_nonempty_iff)

text \<open>
  The request of the test is preflight; it stops being so when the method is GET, and
  when any one of the three headers is taken away. The OPTIONS request that carries
  only an Origin is not preflight.
\<close>

theorem IsPreflight_iff_four_conditions_witness:
  "IsPreflight preflight_request \<and>
   \<not> IsPreflight options_request \<and>
   \<not> IsPreflight (preflight_request\<lparr>Method := ''GET''\<rparr>) \<and>
   \<not> IsPreflight (preflight_request\<lparr>Header := (Header preflight_request)(''Origin'' := None)\<rparr>) \<and>
   \<not> IsPreflight (preflight_request\<lparr>Header :=
        (Header preflight_request)(''Access-Control-Request-Method'' := None)\<rparr>) \<and>
   \<not> IsPreflight (preflight_request\<lparr>Header :=
        (Header preflight_request)(''Access-Control-Request-Headers'' := None)\<rparr>)"
  using IsPreflight_iff_four_conditions [of preflight_request, THEN conjunct1]
    IsPreflight_iff_four_conditions [of options_request, THEN conjunct1]
    IsPreflight_iff_four_conditions [of "preflight_request\<lparr>Method := ''GET''\<rparr>", THEN conjunct1]
    IsPreflight_iff_four_conditions
      [of "preflight_request\<lparr>Header := (Header preflight_request)(''Origin'' := None)\<rparr>",
       THEN conjunct1]
    IsPreflight_iff_four_conditions
      [of "preflight_request\<lparr>Header :=
        (Header preflight_request)(''Access-Control-Request-Method'' := None)\<rparr>", THEN conjunct1]
    IsPreflight_iff_four_conditions
      [of "preflight_request\<lparr>Header :=
        (Header preflight_request)(''Access-Control-Request-Headers'' := None)\<rparr>", THEN conjunct1]
  by (simp add: preflight_request_def options_request_def Header_Get_def)


section \<open>The Allow-Origin rule\<close>

text \<open>
  C3. GetAllowOrigin returns the wildcard whenever the wildcard token occurs in the
  configured origin list, whatever stands before or after it in the list and whatever
  the request's Origin is; otherwise it returns the request's Origin header value when
  some configured entry is equal to it as a string, and the empty string when no entry
  is.
\<close>

theorem GetAllowOrigin_wildcard_else_exact_match:
  "fst (GetAllowOrigin opts request) =
     (if ''*'' \<in> set (AllowOrigins opts) then ''*''
      else if Header_Get (Header request) ''Origin'' \<in> set (AllowOrigins opts)
           then Header_Get (Header request) ''Origin''
      else []) \<and>
   fst (GetAllowOrigin (opts\<lparr>AllowOrigins := before @ ''*'' # after\<rparr>) request) = ''*''"
  by (simp add: GetAllowOrigin_def GetAllowOrigin_range_eq HeaderValueWildcard_def
      HeaderOrigin_def)

theorem GetAllowOrigin_wildcard_else_exact_match_witness:
  "fst (GetAllowOrigin test_options preflight_request) = ''https://example.com'' \<and>
   fst (GetAllowOrigin (test_options\<lparr>AllowOrigins := [''https://EXAMPLE.com'']\<rparr>)
          preflight_request) = [] \<and>
   fst (GetAllowOrigin (test_options\<lparr>AllowOrigins := [''https://example.com'', ''*'']\<rparr>)
          preflight_request) = ''*'' \<and>
   fst (GetAllowOrigin (test_options\<lparr>AllowOrigins := [''*'']\<rparr>)
          \<lparr>Method = ''GET'', Header = Map.empty\<rparr>) = ''*''"
  using GetAllowOrigin_wildcard_else_exact_match [of test_options preflight_request "[]" "[]"]
    GetAllowOrigin_wildcard_else_exact_match
      [of "test_options\<lparr>AllowOrigins := [''https://EXAMPLE.com'']\<rparr>" preflight_request
        "[]" "[]"]
    GetAllowOrigin_wildcard_else_exact_match
      [of test_options preflight_request "[''https://example.com'']" "[]"]
    GetAllowOrigin_wildcard_else_exact_match
      [of test_options "\<lparr>Method = ''GET'', Header = Map.empty\<rparr>" "[]" "[]"]
  by (simp add: test_options_def NewOptions_def preflight_request_def Header_Get_def)


section \<open>The list-valued rules\<close>

text \<open>
  C5. Each of GetAllowMethods, GetAllowHeaders and GetExposeHeaders returns the wildcard
  when the wildcard token occurs at any position of its configured list, and otherwise
  the elements of the list in configured order with a comma and a space between
  neighbours; for the empty list that is the empty string.
\<close>

theorem list_rules_wildcard_else_joined:
  "fst (GetAllowMethods opts) =
     (if ''*'' \<in> set (AllowMethods opts) then ''*''
      else join_with '', '' (AllowMethods opts)) \<and>
   fst (GetAllowHeaders opts) =
     (if ''*'' \<in> set (AllowHeaders opts) then ''*''
      else join_with '', '' (AllowHeaders opts)) \<and>
   fst (GetExposeHeaders opts) =
     (if ''*'' \<in> set (ExposeHeaders opts) then ''*''
      else join_with '', '' (ExposeHeaders opts)) \<and>
   fst (GetAllowMethods (opts\<lparr>AllowMethods := []\<rparr>)) = [] \<and>
   fst (GetAllowHeaders (opts\<lparr>AllowHeaders := []\<rparr>)) = [] \<and>
   fst (GetExposeHeaders (opts\<lparr>ExposeHeaders := []\<rparr>)) = []"
  by (simp add: GetAllowMethods_def GetAllowHeaders_def GetExposeHeaders_def
      range_wildcard_eq Join_join_with HeaderValueWildcard_def)

theorem list_rules_wildcard_else_joined_witness:
  "fst (GetAllowMethods test_options) = ''GET, POST'' \<and>
   fst (GetAllowHeaders test_options) = ''Content-Type, Authorization'' \<and>
   fst (GetExposeHeaders test_options) = [] \<and>
   fst (GetAllowMethods (test_options\<lparr>AllowMethods := [''*'', ''GET'']\<rparr>)) = ''*'' \<and>
   fst (GetAllowHeaders (test_options\<lparr>AllowHeaders := [''X-A'', ''*'']\<rparr>)) = ''*'' \<and>
   fst (GetExposeHeaders (test_options\<lparr>ExposeHeaders := [''X-A'', ''*'', ''X-B'']\<rparr>)) = ''*''"
  using list_rules_wildcard_else_joined [of test_options]
    list_rules_wildcard_else_joined [of "test_options\<lparr>AllowMethods := [''*'', ''GET'']\<rparr>"]
    list_rules_wildcard_else_joined [of "test_options\<lparr>AllowHeaders := [''X-A'', ''*'']\<rparr>"]
    list_rules_wildcard_else_joined
      [of "test_options\<lparr>ExposeHeaders := [''X-A'', ''*'', ''X-B'']\<rparr>"]
  by (simp add: test_options_def NewOptions_def)


section \<open>The Max-Age rule\<close>

text \<open>
  C7. GetMaxAge returns the decimal rendering of the configured maxAge, negative values
  included: the returned string is a canonical decimal numeral whose value is maxAge
  (5 gives "5" and -1 gives "-1"). The result is determined by maxAge alone: no request
  is read, and two policies with the same maxAge give the same string.
\<close>

theorem GetMaxAge_decimal_rendering:
  "decimal_value (fst (GetMaxAge opts)) = Some (MaxAge opts) \<and>
   canonical_decimal (fst (GetMaxAge opts)) \<and>
   fst (GetMaxAge (opts\<lparr>MaxAge := 5\<rparr>)) = ''5'' \<and>
   fst (GetMaxAge (opts\<lparr>MaxAge := - 1\<rparr>)) = ''-1'' \<and>
   fst (GetMaxAge (other\<lparr>MaxAge := MaxAge opts\<rparr>)) = fst (GetMaxAge opts)"
proof -
  have "Itoa 5 = ''5''" and "Itoa (- 1) = ''-1''"
    by code_simp+
  then show ?thesis
    by (simp add: GetMaxAge_def decimal_value_Itoa canonical_decimal_Itoa)
qed

theorem GetMaxAge_decimal_rendering_witness:
  "fst (GetMaxAge NewOptions) = ''5'' \<and>
   fst (GetMaxAge (NewOptions\<lparr>MaxAge := - 1\<rparr>)) = ''-1'' \<and>
   decimal_value (fst (GetMaxAge (NewOptions\<lparr>MaxAge := - 86400\<rparr>))) = Some (- 86400) \<and>
   canonical_decimal (fst (GetMaxAge (NewOptions\<lparr>MaxAge := - 86400\<rparr>)))"
  using GetMaxAge_decimal_rendering [of NewOptions NewOptions]
    GetMaxAge_decimal_rendering [of "NewOptions\<lparr>MaxAge := - 86400\<rparr>" NewOptions]
  by (simp add: NewOptions_def DefaultMaxAge_def GetMaxAge_def)


section \<open>The Vary rule\<close>

text \<open>
  The Vary rule counts the entries of the configured list, not the different strings
  among them: a list that names the same origin twice has one distinct origin and gets
  "Origin" all the same. So the reading of C4 by distinct origins fails on that list.
\<close>

theorem GetVary_distinct_origins_counterexample:
  "\<not> (fst (GetVary (NewOptions\<lparr>AllowOrigins := [''https://a.example'', ''https://a.example'']\<rparr>)) =
      (if 1 < card (set (AllowOrigins
            (NewOptions\<lparr>AllowOrigins := [''https://a.example'', ''https://a.example'']\<rparr>)))
       then ''Origin'' else []))"
  by (simp add: GetVary_def HeaderOrigin_def)

text \<open>
  C4 (amended). GetVary returns the literal "Origin" if the configured origin list has
  more than one entry (repeated entries counted as often as they occur), and the empty
  string otherwise; in particular a list with exactly one origin, or with the wildcard
  alone, gives no Vary value.
\<close>

theorem GetVary_more_than_one_entry:
  "fst (GetVary opts) = (if 1 < length (AllowOrigins opts) then ''Origin'' else []) \<and>
   fst (GetVary (opts\<lparr>AllowOrigins := [origin]\<rparr>)) = [] \<and>
   fst (GetVary (opts\<lparr>AllowOrigins := [''*'']\<rparr>)) = []"
  by (simp add: GetVary_def HeaderOrigin_def)

theorem GetVary_more_than_one_entry_witness:
  "fst (GetVary test_options) = [] \<and>
   fst (GetVary (test_options\<lparr>AllowOrigins := [''https://a.example'', ''https://b.example'']\<rparr>))
     = ''Origin'' \<and>
   fst (GetVary (test_options\<lparr>AllowOrigins := [''https://a.example'', ''https://a.example'']\<rparr>))
     = ''Origin''"
  using GetVary_more_than_one_entry [of test_options]
    GetVary_more_than_one_entry
      [of "test_options\<lparr>AllowOrigins := [''https://a.example'', ''https://b.example'']\<rparr>"]
    GetVary_more_than_one_entry
      [of "test_options\<lparr>AllowOrigins := [''https://a.example'', ''https://a.example'']\<rparr>"]
  by (simp add: test_options_def NewOptions_def)


section \<open>Facts about the handler\<close>

lemma GetVary_state: "snd (GetVary opts) = opts"
  by (simp add: GetVary_def)

lemma GetAllowOrigin_state: "snd (GetAllowOrigin opts r) = opts"
  by (simp add: GetAllowOrigin_def)

lemma GetAllowCredentials_state: "snd (GetAllowCredentials opts) = opts"
  by (simp add: GetAllowCredentials_def)

lemma GetAllowMethods_state: "snd (GetAllowMethods opts) = opts"
  by (simp add: GetAllowMethods_def split: option.splits)

lemma GetAllowHeaders_state: "snd (GetAllowHeaders opts) = opts"
  by (simp add: GetAllowHeaders_def split: option.splits)

lemma GetExposeHeaders_state: "snd (GetExposeHeaders opts) = opts"
  by (simp add: GetExposeHeaders_def split: option.splits)

lemma GetMaxAge_state: "snd (GetMaxAge opts) = opts"
  by (simp add: GetMaxAge_def)

lemmas rule_state = GetVary_state GetAllowOrigin_state GetAllowCredentials_state
  GetAllowMethods_state GetAllowHeaders_state GetExposeHeaders_state GetMaxAge_state

lemma handler_state: "snd (handler_ServeHTTP h rw req) = h"
  by (simp add: handler_ServeHTTP_def Let_def split_def rule_state)

lemma handler_preflight:
  "IsPreflight req \<Longrightarrow>
   fst (handler_ServeHTTP h rw req) =
     WriteHeader
       (set_if (set_if (set_if (common_headers h rw req)
            HeaderAllowMethods (cache_load h HeaderAllowMethods))
            HeaderAllowHeaders (cache_load h HeaderAllowHeaders))
            HeaderMaxAge (cache_load h HeaderMaxAge))
       StatusNoContent"
  by (simp add: handler_ServeHTTP_def Let_def split_def rule_state set_if_def add_if_def
      common_headers_def)

lemma handler_not_preflight:
  "\<not> IsPreflight req \<Longrightarrow>
   fst (handler_ServeHTTP h rw req) =
     set_if (common_headers h rw req) HeaderExposeHeaders (cache_load h HeaderExposeHeaders)"
  by (simp add: handler_ServeHTTP_def Let_def split_def rule_state set_if_def add_if_def
      common_headers_def)

lemma recompute_preflight:
  "IsPreflight req \<Longrightarrow>
   recompute_ServeHTTP h rw req =
     (WriteHeader
       (set_if (set_if (set_if (common_headers h rw req)
            HeaderAllowMethods (fst (GetAllowMethods h)))
            HeaderAllowHeaders (fst (GetAllowHeaders h)))
            HeaderMaxAge (fst (GetMaxAge h)))
       StatusNoContent, h)"
  by (simp add: recompute_ServeHTTP_def Let_def split_def rule_state set_if_def add_if_def
      common_headers_def)

lemma recompute_not_preflight:
  "\<not> IsPreflight req \<Longrightarrow>
   recompute_ServeHTTP h rw req =
     (set_if (common_headers h rw req) HeaderExposeHeaders (fst (GetExposeHeaders h)), h)"
  by (simp add: recompute_ServeHTTP_def Let_def split_def rule_state set_if_def add_if_def
      common_headers_def)

lemma hdr_set_if:
  "hdr (set_if rw key v) k = (if v \<noteq> [] \<and> k = key then Some [v] else hdr rw k)"
  by (simp add: set_if_def Header_Set_def)

lemma codes_set_if: "codes (set_if rw key v) = codes rw"
  by (simp add: set_if_def)

lemma hdr_add_if:
  "hdr (add_if rw key v) k =
     (if v \<noteq> [] \<and> k = key
      then Some ((case hdr rw k of None \<Rightarrow> [] | Some vs \<Rightarrow> vs) @ [v])
      else hdr rw k)"
  by (simp add: add_if_def Header_Add_def)

lemma codes_add_if: "codes (add_if rw key v) = codes rw"
  by (simp add: add_if_def)

lemma hdr_WriteHeader: "hdr (WriteHeader rw c) = hdr rw"
  by (simp add: WriteHeader_def)

lemma codes_WriteHeader: "codes (WriteHeader rw c) = codes rw @ [c]"
  by (simp add: WriteHeader_def)

lemma codes_common: "codes (common_headers h rw req) = codes rw"
  by (simp add: common_headers_def codes_set_if codes_add_if)

lemma hdr_common_other:
  "k \<noteq> HeaderVary \<Longrightarrow> k \<noteq> HeaderAllowOrigin \<Longrightarrow> k \<noteq> HeaderAllowCredentials \<Longrightarrow>
   hdr (common_headers h rw req) k = hdr rw k"
  by (simp add: common_headers_def hdr_set_if hdr_add_if)

lemma NewHandler_result:
  "NewHandler opts =
     Inr (opts\<lparr>cache := Some [HeaderAllowMethods \<mapsto> fst (GetAllowMethods opts),
                               HeaderAllowHeaders \<mapsto> fst (GetAllowHeaders opts),
                               HeaderExposeHeaders \<mapsto> fst (GetExposeHeaders opts),
                               HeaderMaxAge \<mapsto> fst (GetMaxAge opts)]\<rparr>)"
  by (simp add: NewHandler_def Let_def split_def cache_store_def
      GetAllowMethods_def GetAllowHeaders_def GetExposeHeaders_def GetMaxAge_def
      split: option.splits)

lemma rules_ignore_cache:
  "fst (GetAllowMethods (opts\<lparr>cache := c\<rparr>)) = fst (GetAllowMethods opts)"
  "fst (GetAllowHeaders (opts\<lparr>cache := c\<rparr>)) = fst (GetAllowHeaders opts)"
  "fst (GetExposeHeaders (opts\<lparr>cache := c\<rparr>)) = fst (GetExposeHeaders opts)"
  "fst (GetMaxAge (opts\<lparr>cache := c\<rparr>)) = fst (GetMaxAge opts)"
  by (simp_all add: GetAllowMethods_def GetAllowHeaders_def GetExposeHeaders_def GetMaxAge_def
      split: option.splits)

lemma NewHandler_cache_load:
  assumes "NewHandler opts = Inr h"
  shows "cache_load h HeaderAllowMethods = fst (GetAllowMethods h)"
    and "cache_load h HeaderAllowHeaders = fst (GetAllowHeaders h)"
    and "cache_load h HeaderExposeHeaders = fst (GetExposeHeaders h)"
    and "cache_load h HeaderMaxAge = fst (GetMaxAge h)"
  using assms unfolding NewHandler_result
  by (auto simp: cache_load_def header_names rules_ignore_cache)

lemma Itoa_5: "Itoa 5 = ''5''"
  by code_simp

lemma NewHandler_test: "NewHandler test_options = Inr test_handler"
  unfolding NewHandler_result
  by (simp add: test_handler_def test_options_def NewOptions_def header_names
      GetAllowMethods_def GetAllowHeaders_def GetExposeHeaders_def GetMaxAge_def
      HeaderValueWildcard_def Join_def DefaultMaxAge_def Itoa_5)

lemma plugin_result:
  "fst (CorsPlugin_ServeHTTP c conn req) =
     (if IsPreflight req then conn\<lparr>writer := fst (handler_ServeHTTP (cors c) (writer conn) req)\<rparr>
      else conn\<lparr>writer := next_stage c (fst (handler_ServeHTTP (cors c) (writer conn) req)) req,
                forwarded := forwarded conn @ [req]\<rparr>)"
  by (simp add: CorsPlugin_ServeHTTP_def Let_def split_def)











section \<open>Preflight requests are answered, other requests are forwarded\<close>

text \<open>
  C2. For a preflight request the handler sets Access-Control-Allow-Methods,
  Access-Control-Allow-Headers and Access-Control-Max-Age to the values of the cache,
  each only when the cached value is non-empty (the header stays as it was otherwise),
  and writes status 204; the plugin then returns without calling the next stage. For
  any other request the handler writes no status and the plugin calls the next stage
  exactly once, on the writer the handler left. In either case the next stage is called
  at most once.
\<close>

theorem preflight_answered_others_forwarded:
  "(IsPreflight req \<longrightarrow>
      fst (CorsPlugin_ServeHTTP c conn req) =
        conn\<lparr>writer := fst (handler_ServeHTTP (cors c) (writer conn) req)\<rparr> \<and>
      forwarded (fst (CorsPlugin_ServeHTTP c conn req)) = forwarded conn \<and>
      codes (fst (handler_ServeHTTP h rw req)) = codes rw @ [204] \<and>
      hdr (fst (handler_ServeHTTP h rw req)) ''Access-Control-Allow-Methods'' =
        (if cache_load h ''Access-Control-Allow-Methods'' \<noteq> []
         then Some [cache_load h ''Access-Control-Allow-Methods'']
         else hdr rw ''Access-Control-Allow-Methods'') \<and>
      hdr (fst (handler_ServeHTTP h rw req)) ''Access-Control-Allow-Headers'' =
        (if cache_load h ''Access-Control-Allow-Headers'' \<noteq> []
         then Some [cache_load h ''Access-Control-Allow-Headers'']
         else hdr rw ''Access-Control-Allow-Headers'') \<and>
      hdr (fst (handler_ServeHTTP h rw req)) ''Access-Control-Max-Age'' =
        (if cache_load h ''Access-Control-Max-Age'' \<noteq> []
         then Some [cache_load h ''Access-Control-Max-Age'']
         else hdr rw ''Access-Control-Max-Age'')) \<and>
   (\<not> IsPreflight req \<longrightarrow>
      forwarded (fst (CorsPlugin_ServeHTTP c conn req)) = forwarded conn @ [req] \<and>
      writer (fst (CorsPlugin_ServeHTTP c conn req)) =
        next_stage c (fst (handler_ServeHTTP (cors c) (writer conn) req)) req \<and>
      codes (fst (handler_ServeHTTP h rw req)) = codes rw) \<and>
   length (forwarded (fst (CorsPlugin_ServeHTTP c conn req))) \<le> length (forwarded conn) + 1"
proof (cases "IsPreflight req")
  case True
  have "codes (fst (handler_ServeHTTP h rw req)) = codes rw @ [204]"
    by (simp add: handler_preflight [OF True] codes_WriteHeader codes_set_if codes_common
        StatusNoContent_def)
  moreover have "hdr (fst (handler_ServeHTTP h rw req)) HeaderAllowMethods =
        (if cache_load h HeaderAllowMethods \<noteq> []
         then Some [cache_load h HeaderAllowMethods] else hdr rw HeaderAllowMethods)"
    by (simp add: handler_preflight [OF True] hdr_WriteHeader hdr_set_if hdr_common_other
        header_names)
  moreover have "hdr (fst (handler_ServeHTTP h rw req)) HeaderAllowHeaders =
        (if cache_load h HeaderAllowHeaders \<noteq> []
         then Some [cache_load h HeaderAllowHeaders] else hdr rw HeaderAllowHeaders)"
    by (simp add: handler_preflight [OF True] hdr_WriteHeader hdr_set_if hdr_common_other
        header_names)
  moreover have "hdr (fst (handler_ServeHTTP h rw req)) HeaderMaxAge =
        (if cache_load h HeaderMaxAge \<noteq> []
         then Some [cache_load h HeaderMaxAge] else hdr rw HeaderMaxAge)"
    by (simp add: handler_preflight [OF True] hdr_WriteHeader hdr_set_if hdr_common_other
        header_names)
  ultimately show ?thesis
    using True by (simp add: plugin_result header_names)
next
  case False
  have "codes (fst (handler_ServeHTTP h rw req)) = codes rw"
    by (simp add: handler_not_preflight [OF False] codes_set_if codes_common)
  then show ?thesis
    using False by (simp add: plugin_result)
qed

theorem preflight_answered_others_forwarded_witness:
  "IsPreflight preflight_request \<and>
   forwarded (fst (CorsPlugin_ServeHTTP test_plugin test_conn preflight_request)) = [] \<and>
   codes (writer (fst (CorsPlugin_ServeHTTP test_plugin test_conn preflight_request))) = [204] \<and>
   hdr (fst (handler_ServeHTTP test_handler recorder preflight_request))
     ''Access-Control-Allow-Methods'' = Some [''GET, POST''] \<and>
   hdr (fst (handler_ServeHTTP test_handler recorder preflight_request))
     ''Access-Control-Allow-Headers'' = Some [''Content-Type, Authorization''] \<and>
   hdr (fst (handler_ServeHTTP test_handler recorder preflight_request))
     ''Access-Control-Max-Age'' = Some [''5''] \<and>
   \<not> IsPreflight get_request \<and>
   forwarded (fst (CorsPlugin_ServeHTTP test_plugin test_conn get_request)) = [get_request] \<and>
   codes (writer (fst (CorsPlugin_ServeHTTP test_plugin test_conn get_request))) = [200]"
proof -
  have p: "IsPreflight preflight_request"
    by (simp add: IsPreflight_def preflight_request_def Header_Get_def MethodOptions_def
        header_names)
  have g: "\<not> IsPreflight get_request"
    by (simp add: IsPreflight_def get_request_def MethodOptions_def)
  have l: "cache_load test_handler ''Access-Control-Allow-Methods'' = ''GET, POST''"
    "cache_load test_handler ''Access-Control-Allow-Headers'' = ''Content-Type, Authorization''"
    "cache_load test_handler ''Access-Control-Max-Age'' = ''5''"
    by (simp_all add: cache_load_def test_handler_def)
  show ?thesis
    using p g
      preflight_answered_others_forwarded
        [of preflight_request test_plugin test_conn test_handler recorder]
      preflight_answered_others_forwarded
        [of get_request test_plugin test_conn test_handler recorder]
    by (simp add: l test_plugin_def test_conn_def recorder_def WriteHeader_def)
qed


section \<open>The cache holds what the rules compute\<close>

text \<open>
  C6. NewHandler never fails, and the cache it leaves has exactly the four keys
  Access-Control-Allow-Methods, Access-Control-Allow-Headers,
  Access-Control-Expose-Headers and Access-Control-Max-Age, bound to the values that
  GetAllowMethods, GetAllowHeaders, GetExposeHeaders and GetMaxAge compute from the same
  configuration, which NewHandler leaves as it was. Hence the handler that reads the
  cache and the handler that calls these rules for each request give the same result
  on every response writer and request.
\<close>

theorem cache_holds_rule_values:
  "\<exists>h m. NewHandler opts = Inr h \<and> cache h = Some m \<and>
     dom m = {''Access-Control-Allow-Methods'', ''Access-Control-Allow-Headers'',
              ''Access-Control-Expose-Headers'', ''Access-Control-Max-Age''} \<and>
     m ''Access-Control-Allow-Methods'' = Some (fst (GetAllowMethods opts)) \<and>
     m ''Access-Control-Allow-Headers'' = Some (fst (GetAllowHeaders opts)) \<and>
     m ''Access-Control-Expose-Headers'' = Some (fst (GetExposeHeaders opts)) \<and>
     m ''Access-Control-Max-Age'' = Some (fst (GetMaxAge opts)) \<and>
     h\<lparr>cache := cache opts\<rparr> = opts \<and>
     (\<forall>rw req. handler_ServeHTTP h rw req = recompute_ServeHTTP h rw req)"
proof -
  obtain h where h: "NewHandler opts = Inr h"
    by (simp add: NewHandler_result)
  have eq: "handler_ServeHTTP h rw req = recompute_ServeHTTP h rw req" for rw req
  proof (cases "IsPreflight req")
    case True
    then show ?thesis
      using handler_preflight [OF True, of h rw] handler_state [of h rw req]
      by (simp add: recompute_preflight NewHandler_cache_load [OF h] prod_eq_iff)
  next
    case False
    then show ?thesis
      using handler_not_preflight [OF False, of h rw] handler_state [of h rw req]
      by (simp add: recompute_not_preflight NewHandler_cache_load [OF h] prod_eq_iff)
  qed
  have "cache h = Some [HeaderAllowMethods \<mapsto> fst (GetAllowMethods opts),
                        HeaderAllowHeaders \<mapsto> fst (GetAllowHeaders opts),
                        HeaderExposeHeaders \<mapsto> fst (GetExposeHeaders opts),
                        HeaderMaxAge \<mapsto> fst (GetMaxAge opts)]"
    and "h\<lparr>cache := cache opts\<rparr> = opts"
    using h unfolding NewHandler_result by auto
  then show ?thesis using h eq
    by (auto simp: header_names)
qed


theorem cache_holds_rule_values_witness:
  "NewHandler test_options = Inr test_handler \<and>
   cache_load test_handler ''Access-Control-Allow-Methods'' = fst (GetAllowMethods test_options) \<and>
   fst (GetAllowMethods test_options) = ''GET, POST'' \<and>
   handler_ServeHTTP test_handler recorder preflight_request =
     recompute_ServeHTTP test_handler recorder preflight_request \<and>
   handler_ServeHTTP test_handler recorder get_request =
     recompute_ServeHTTP test_handler recorder get_request"
proof -
  from cache_holds_rule_values [of test_options]
  obtain h m where h: "NewHandler test_options = Inr h"
      "cache h = Some m"
      "m ''Access-Control-Allow-Methods'' = Some (fst (GetAllowMethods test_options))"
      "\<forall>rw req. handler_ServeHTTP h rw req = recompute_ServeHTTP h rw req"
    by (elim exE conjE) (rule that)
  from h(1) have t: "h = test_handler"
    unfolding NewHandler_test by (rule sum.inject [THEN iffD1, symmetric])
  have a: "fst (GetAllowMethods test_options) = ''GET, POST''"
    by (simp add: test_options_def NewOptions_def GetAllowMethods_def HeaderValueWildcard_def
        Join_def)
  have b: "cache_load test_handler ''Access-Control-Allow-Methods'' =
      fst (GetAllowMethods test_options)"
    using h(2,3) unfolding t by (simp add: cache_load_def)
  have c: "handler_ServeHTTP test_handler rw req = recompute_ServeHTTP test_handler rw req"
    for rw req
    using h(4) unfolding t by (rule allE) (erule allE)
  show ?thesis
    by (intro conjI) (rule NewHandler_test b a c)+
qed


section \<open>Every preflight response carries Access-Control-Max-Age\<close>

text \<open>
  C10. For a handler made by NewHandler, the cached Max-Age value is the decimal
  rendering of the configured maxAge, which is never the empty string; so for every
  preflight request the guard before setting Access-Control-Max-Age passes, and the
  response carries the header with that rendering as its single value.
\<close>

theorem preflight_always_carries_max_age:
  "NewHandler opts = Inr h \<and> IsPreflight req \<longrightarrow>
     cache_load h ''Access-Control-Max-Age'' = Itoa (MaxAge opts) \<and>
     cache_load h ''Access-Control-Max-Age'' \<noteq> [] \<and>
     hdr (fst (handler_ServeHTTP h rw req)) ''Access-Control-Max-Age'' =
       Some [Itoa (MaxAge opts)] \<and>
     Header_Get (hdr (fst (handler_ServeHTTP h rw req))) ''Access-Control-Max-Age'' \<noteq> []"
proof (intro impI, elim conjE)
  assume h: "NewHandler opts = Inr h" and p: "IsPreflight req"
  have l: "cache_load h HeaderMaxAge = Itoa (MaxAge opts)"
    using h unfolding NewHandler_result
    by (auto simp: cache_load_def header_names GetMaxAge_def)
  have "hdr (fst (handler_ServeHTTP h rw req)) HeaderMaxAge = Some [Itoa (MaxAge opts)]"
    by (simp add: handler_preflight [OF p] hdr_WriteHeader hdr_set_if l Itoa_nonempty)
  then show "cache_load h ''Access-Control-Max-Age'' = Itoa (MaxAge opts) \<and>
     cache_load h ''Access-Control-Max-Age'' \<noteq> [] \<and>
     hdr (fst (handler_ServeHTTP h rw req)) ''Access-Control-Max-Age'' =
       Some [Itoa (MaxAge opts)] \<and>
     Header_Get (hdr (fst (handler_ServeHTTP h rw req))) ''Access-Control-Max-Age'' \<noteq> []"
    using l by (simp add: header_names Itoa_nonempty Header_Get_def)
qed

theorem preflight_always_carries_max_age_witness:
  "NewHandler test_options = Inr test_handler \<and>
   IsPreflight preflight_request \<and>
   hdr (fst (handler_ServeHTTP test_handler recorder preflight_request))
     ''Access-Control-Max-Age'' = Some [''5'']"
proof -
  have n: "NewHandler test_options = Inr test_handler"
    by (rule NewHandler_test)
  have p: "IsPreflight preflight_request"
    by (simp add: IsPreflight_def preflight_request_def Header_Get_def MethodOptions_def
        header_names)
  show ?thesis
    using n p preflight_always_carries_max_age
      [of test_options test_handler preflight_request recorder]
    by (simp add: test_options_def NewOptions_def DefaultMaxAge_def Itoa_5)
qed


section \<open>The rules return on pointers that are not nil\<close>





section \<open>The rules are repeatable and leave the policy alone\<close>

text \<open>
  C9. Each of the seven rules leaves the policy it is called on as it was,
  configuration and cache alike, and a second call on the policy left by the first,
  with the same request, returns the same string as the first.
\<close>

theorem rules_repeatable_and_without_effect:
  "snd (GetAllowOrigin opts request) = opts \<and>
   fst (GetAllowOrigin (snd (GetAllowOrigin opts request)) request) =
     fst (GetAllowOrigin opts request) \<and>
   snd (GetAllowCredentials opts) = opts \<and>
   fst (GetAllowCredentials (snd (GetAllowCredentials opts))) = fst (GetAllowCredentials opts) \<and>
   snd (GetAllowMethods opts) = opts \<and>
   fst (GetAllowMethods (snd (GetAllowMethods opts))) = fst (GetAllowMethods opts) \<and>
   snd (GetAllowHeaders opts) = opts \<and>
   fst (GetAllowHeaders (snd (GetAllowHeaders opts))) = fst (GetAllowHeaders opts) \<and>
   snd (GetExposeHeaders opts) = opts \<and>
   fst (GetExposeHeaders (snd (GetExposeHeaders opts))) = fst (GetExposeHeaders opts) \<and>
   snd (GetMaxAge opts) = opts \<and>
   fst (GetMaxAge (snd (GetMaxAge opts))) = fst (GetMaxAge opts) \<and>
   snd (GetVary opts) = opts \<and>
   fst (GetVary (snd (GetVary opts))) = fst (GetVary opts)"
  by (simp add: rule_state)

theorem rules_repeatable_and_without_effect_witness:
  "snd (GetAllowOrigin test_handler preflight_request) = test_handler \<and>
   fst (GetAllowOrigin (snd (GetAllowOrigin test_handler preflight_request)) preflight_request) =
     ''https://example.com'' \<and>
   cache (snd (GetAllowMethods test_handler)) = cache test_handler \<and>
   fst (GetAllowMethods (snd (GetAllowMethods test_handler))) = ''GET, POST''"
proof -
  have "fst (GetAllowOrigin test_handler preflight_request) = ''https://example.com''"
    and "fst (GetAllowMethods test_handler) = ''GET, POST''"
    by (simp_all add: test_handler_def test_options_def NewOptions_def preflight_request_def
        GetAllowOrigin_def GetAllowMethods_def Header_Get_def HeaderOrigin_def
        HeaderValueWildcard_def Join_def Let_def)
  then show ?thesis
    using rules_repeatable_and_without_effect [of test_handler preflight_request]
    by simp
qed

end
